theory Spec2Isabelle
  imports Complex_Main "HOL-Library.Sublist"
begin

section \<open>ArLocal: the application object of \<^verbatim>\<open>src/app.ts\<close>\<close>

text \<open>
  The class \<^verbatim>\<open>ArLocal\<close> wires a Koa application: its constructor fills the shared
  request context, \<^verbatim>\<open>start()\<close> prepares the database directory, restores or creates
  the chain head, registers the routes and listens; \<^verbatim>\<open>stop()\<close> shuts down.
  The embedding keeps the fields of the class as a record, the file system as the set of
  paths that exist, and every call to a collaborator as an entry of a call log, so that
  statements about what is called, and how often, can be made.
\<close>

subsection \<open>Data\<close>

text \<open>\<^verbatim>\<open>NetworkInterface\<close> (the value assigned to \<^verbatim>\<open>app.context.network\<close>).\<close>

record NetworkInterface =
  network :: string
  version :: int
  release :: int
  queue_length :: int
  peers :: int
  node_state_latency :: int
  blocks :: int
  current :: string
  height :: int

text \<open>
  The objects of other modules are known by what they were made from: the connection by
  its path, the logger by \<^verbatim>\<open>showLogs\<close> and \<^verbatim>\<open>persist\<close>, the HTTP server by its port.
\<close>

datatype Knex = Knex string
datatype Logging = Logging bool bool
datatype WalletDB = WalletDB Knex
datatype ApolloServer = ApolloServer Knex
datatype Server = Server int

text \<open>
  The fields that \<^verbatim>\<open>app.ts\<close> declares on Koa's \<^verbatim>\<open>BaseContext\<close> and assigns.
  (\<^verbatim>\<open>transactions\<close> and \<^verbatim>\<open>txInBundle\<close> are declared there but never assigned in this
  file.) Their names carry the prefix \<open>ctx_\<close>, since the class has fields of the
  same names. JavaScript numbers are modelled as \<open>int\<close> where the code holds integers
  (ports, heights, milliseconds) and as \<open>rat\<close> for the failure rate, which is divided.
\<close>

record BaseContext =
  ctx_connection :: Knex
  ctx_network :: NetworkInterface
  ctx_dbPath :: string
  ctx_logging :: Logging
  ctx_fails :: rat
  ctx_timestamp :: int

datatype verb = GET | POST | PATCH | DELETE | HEAD

datatype route_path = Path string | dataRouteRegex

text \<open>
  The handlers are the imported route functions; the two written in place in
  \<^verbatim>\<open>start()\<close> are called \<open>priceRoute\<close> and \<open>requestTypeNotFound\<close> here.
\<close>

datatype handler =
    logsRoute | statusRoute | peersRoute | resetRoute | mineRoute | mineWithFailsRoute
  | txAnchorRoute | priceRoute | txPendingRoute | txOffsetRoute | txStatusRoute
  | txRawDataRoute | txDataRoute | txFieldRoute | txFileRoute | txRoute | deleteTxRoute
  | txValidateMiddleware | txPostRoute | postChunkRoute | getChunkOffsetRoute
  | blocksRoute | blocksRouteViaHeight | createWalletRoute | updateBalanceRoute
  | addBalanceRoute | getBalanceRoute | getLastWalletTxRoute | dataHeadRoute | dataRoute
  | subDataRoute | requestTypeNotFound

text \<open>One layer of the router: a verb, a path pattern and the handler chain.\<close>

record Route =
  route_verb :: verb
  route_path :: route_path
  route_handlers :: "handler list"

datatype middleware =
    apolloMiddleware string | cors | crossOriginResourcePolicy | json | logger
  | bodyParser | routerRoutes | routerAllowedMethods

record ArLocal =
  port :: int
  dbPath :: string
  persist :: bool
  fails :: rat
  this_log :: Logging
  connection :: Knex
  apollo :: "ApolloServer option"
  server :: "Server option"
  app_context :: BaseContext
  app_middleware :: "middleware list"
  router :: "Route list"
  walletDB :: WalletDB

text \<open>Calls to collaborators (other modules, Node's \<^verbatim>\<open>fs\<close>, the HTTP server), in order.\<close>

datatype call =
    Connect string
  | NewLogging bool bool
  | NewWalletDB
  | RmSync string
  | MkdirSync string
  | GraphServer
  | ApolloStart
  | Up
  | NewBlockDB
  | GetLastBlock
  | MineGenesisBlock
  | Listen int
  | ServerClose
  | Down bool
  | ApolloStop
  | ConnectionDestroy

record World =
  fs :: "string set"
  calls :: "call list"

definition called :: "call \<Rightarrow> World \<Rightarrow> World" where
  "called c w = w\<lparr>calls := calls w @ [c]\<rparr>"

subsection \<open>Node's file system and path functions\<close>

text \<open>
  \<^verbatim>\<open>fs\<close> is the set of paths that exist. \<^verbatim>\<open>rmSync(p, {recursive: true})\<close> (no
  \<^verbatim>\<open>force\<close>) throws when \<^verbatim>\<open>p\<close> does not exist and otherwise removes \<^verbatim>\<open>p\<close> and
  everything below it; \<^verbatim>\<open>mkdirSync(p, {recursive: true})\<close> creates \<^verbatim>\<open>p\<close> and its
  missing parents. Permissions are not modelled.
\<close>

datatype fs_error = ENOENT

definition is_under :: "string \<Rightarrow> string \<Rightarrow> bool" where
  "is_under d p = (p = d \<or> prefix (d @ ''/'') p)"

definition rmSync :: "string \<Rightarrow> string set \<Rightarrow> fs_error + string set" where
  "rmSync p files =
     (if p \<in> files then Inr (Set.filter (\<lambda>q. \<not> is_under p q) files) else Inl ENOENT)"

definition existsSync :: "string \<Rightarrow> string set \<Rightarrow> bool" where
  "existsSync p files = (p \<in> files)"

definition parents :: "string \<Rightarrow> string list" where
  "parents p = map (\<lambda>i. take i p) (filter (\<lambda>i. p ! i = CHR ''/'') [1..<length p])"

definition mkdirSync :: "string \<Rightarrow> string set \<Rightarrow> string set" where
  "mkdirSync p files = insert p (set (parents p) \<union> files)"

text \<open>
  \<^verbatim>\<open>path.join\<close> on segments that need no normalisation (an absolute directory name
  without a trailing separator, then plain names): the segments separated by \<open>/\<close>.
\<close>

fun join :: "string list \<Rightarrow> string" where
  "join [] = ''.''"
| "join [s] = s"
| "join (s # ss) = s @ ''/'' @ join ss"

text \<open>
  \<^verbatim>\<open>Number.prototype.toString\<close> on an integer: the decimal digits, with a minus sign
  for a negative number (JavaScript switches to exponent notation from \<open>10^21\<close> on, far
  beyond any port number).
\<close>

fun digits :: "nat \<Rightarrow> string" where
  "digits n =
     (if n < 10 then [''0123456789'' ! n]
      else digits (n div 10) @ [''0123456789'' ! (n mod 10)])"

declare digits.simps [simp del]

definition toString :: "int \<Rightarrow> string" where
  "toString n = (if n < 0 then ''-'' @ digits (nat (- n)) else digits (nat n))"

subsection \<open>The constructor\<close>

text \<open>
  An omitted argument is \<open>None\<close> and takes the parameter's default. \<^verbatim>\<open>port || this.port\<close>
  and \<^verbatim>\<open>dbPath || ...\<close> take the right operand when the left one is falsy: the number
  \<open>0\<close>, the empty string. \<open>dirname\<close> is \<^verbatim>\<open>__dirname\<close> and \<open>now\<close> is what
  \<^verbatim>\<open>new Date().getTime()\<close> returns.
\<close>

definition initial_network :: NetworkInterface where
  "initial_network =
     \<lparr>network = ''arlocal.N.1'', version = 1, release = 1, queue_length = 0, peers = 1,
      node_state_latency = 0, blocks = 0, current = ''block_id'', height = - 1\<rparr>"

definition constructor ::
  "string \<Rightarrow> int \<Rightarrow> int option \<Rightarrow> bool option \<Rightarrow> string option \<Rightarrow> bool option \<Rightarrow>
   rat option \<Rightarrow> World \<Rightarrow> ArLocal \<times> World" where
  "constructor dirname now port_arg showLogs_arg dbPath_arg persist_arg fails_arg w =
     (let port0 = (case port_arg of None \<Rightarrow> 1984 | Some p \<Rightarrow> p);
          showLogs0 = (case showLogs_arg of None \<Rightarrow> True | Some b \<Rightarrow> b);
          persist0 = (case persist_arg of None \<Rightarrow> False | Some b \<Rightarrow> b);
          fails0 = (case fails_arg of None \<Rightarrow> 0 | Some f \<Rightarrow> f);
          this_port = (if port0 \<noteq> 0 then port0 else 1984);
          dbPath0 = (case dbPath_arg of
                       None \<Rightarrow> join [dirname, ''.db'', toString port0]
                     | Some d \<Rightarrow> if d \<noteq> [] then d else join [dirname, ''.db'', toString port0]);
          lg = Logging showLogs0 persist0;
          conn = Knex dbPath0
      in (\<lparr>port = this_port, dbPath = dbPath0, persist = persist0, fails = fails0,
           this_log = lg, connection = conn, apollo = None, server = None,
           app_context =
             \<lparr>ctx_connection = conn, ctx_network = initial_network, ctx_dbPath = dbPath0,
              ctx_logging = lg, ctx_fails = fails0 / 100, ctx_timestamp = now\<rparr>,
           app_middleware = [], router = [], walletDB = WalletDB conn\<rparr>,
          called NewWalletDB
            (called (Connect dbPath0) (called (NewLogging showLogs0 persist0) w))))"

subsection \<open>Starting the database: \<^verbatim>\<open>startDB\<close>\<close>

text \<open>
  \<^verbatim>\<open>try { if (!this.persist) rmSync(this.dbPath, { recursive: true }); } catch {}\<close>:
  the call is made only without \<^verbatim>\<open>persist\<close>, and what it throws is swallowed.
\<close>

definition try_rmSync :: "ArLocal \<Rightarrow> World \<Rightarrow> World" where
  "try_rmSync this w =
     (if \<not> persist this
      then (case rmSync (dbPath this) (fs w) of
              Inl e \<Rightarrow> called (RmSync (dbPath this)) w
            | Inr files \<Rightarrow> (called (RmSync (dbPath this)) w)\<lparr>fs := files\<rparr>)
      else w)"

text \<open>
  An awaited promise of a collaborator either resolves or rejects; the outcome is an
  input of the model. A rejection ends the \<^verbatim>\<open>async\<close> function there, and what was
  done before stays done. What a collaborator writes to disk (the database file that
  \<^verbatim>\<open>up\<close> sets up, for one) is not modelled: \<open>fs\<close> changes through \<^verbatim>\<open>rmSync\<close> and
  \<^verbatim>\<open>mkdirSync\<close> only.
\<close>

datatype rejection = Rejected string

definition startDB ::
  "rejection option \<Rightarrow> rejection option \<Rightarrow> ArLocal \<times> World \<Rightarrow>
   rejection option \<times> ArLocal \<times> World" where
  "startDB apollo_start_result up_result tw =
     (let this = fst tw;
          w1 = try_rmSync this (snd tw);
          w2 = (if \<not> existsSync (dbPath this) (fs w1)
                then (called (MkdirSync (dbPath this)) w1)\<lparr>fs := mkdirSync (dbPath this) (fs w1)\<rparr>
                else w1);
          this1 = this\<lparr>apollo := Some (ApolloServer (connection this))\<rparr>;
          w3 = called ApolloStart (called GraphServer w2)
      in case apollo_start_result of
           Some e \<Rightarrow> (Some e, this1, w3)
         | None \<Rightarrow>
             (let this2 = this1\<lparr>app_middleware :=
                                   app_middleware this1 @ [apolloMiddleware ''/graphql'']\<rparr>
              in if dbPath this \<noteq> '':memory:''
                    \<and> \<not> existsSync (join [dbPath this, ''db.sqlite'']) (fs w3)
                 then (up_result, this2, called Up w3)
                 else (None, this2, w3)))"

subsection \<open>Registering the routes\<close>

text \<open>
  \<^verbatim>\<open>process.env\<close> maps a variable to its string when it is set. The test
  \<^verbatim>\<open>process.env.DISABLE_ADMIN_ROUTES !== 'true'\<close> stands in front of eight of the
  registrations; the others are unconditional. The list is in the order of the source.
\<close>

type_synonym env = "string \<Rightarrow> string option"

definition admin_routes_enabled :: "env \<Rightarrow> bool" where
  "admin_routes_enabled e = (e ''DISABLE_ADMIN_ROUTES'' \<noteq> Some ''true'')"

definition on :: "verb \<Rightarrow> string \<Rightarrow> handler \<Rightarrow> Route" where
  "on v p h = \<lparr>route_verb = v, route_path = Path p, route_handlers = [h]\<rparr>"

definition guarded :: "env \<Rightarrow> Route \<Rightarrow> Route list" where
  "guarded e r = (if admin_routes_enabled e then [r] else [])"

definition register_routes :: "env \<Rightarrow> Route list" where
  "register_routes e =
     guarded e (on GET ''/logs'' logsRoute)
     @ [on GET ''/'' statusRoute,
        on GET ''/info'' statusRoute,
        on GET ''/peers'' peersRoute]
     @ guarded e (on GET ''/reset'' resetRoute)
     @ guarded e (on GET ''/mine/:qty?'' mineRoute)
     @ guarded e (on GET ''/mineWithFails/:qty?'' mineWithFailsRoute)
     @ [on GET ''/tx_anchor'' txAnchorRoute,
        on GET ''/price/:bytes/:addy?'' priceRoute,
        on GET ''/tx/pending'' txPendingRoute,
        on GET ''/tx/:txid/offset'' txOffsetRoute,
        on GET ''/tx/:txid/status'' txStatusRoute,
        on GET ''/tx/:txid/data'' txRawDataRoute,
        on GET ''/tx/:txid/data.:ext'' txDataRoute,
        on GET ''/tx/:txid/:field'' txFieldRoute,
        on GET ''/tx/:txid/:file'' txFileRoute,
        on GET ''/tx/:txid'' txRoute,
        on GET ''/raw/:txid'' txRawDataRoute]
     @ guarded e (on DELETE ''/tx/:txid'' deleteTxRoute)
     @ [\<lparr>route_verb = POST, route_path = Path ''/tx'',
         route_handlers = [txValidateMiddleware, txPostRoute]\<rparr>,
        on POST ''/chunk'' postChunkRoute,
        on GET ''/chunk/:offset'' getChunkOffsetRoute,
        on GET ''/block/hash/:indep_hash'' blocksRoute,
        on GET ''/block/height/:height'' blocksRouteViaHeight]
     @ guarded e (on POST ''/wallet'' createWalletRoute)
     @ guarded e (on PATCH ''/wallet/:address/balance'' updateBalanceRoute)
     @ guarded e (on GET ''/mint/:address/:balance'' addBalanceRoute)
     @ [on GET ''/wallet/:address/balance'' getBalanceRoute,
        on GET ''/wallet/:address/last_tx'' getLastWalletTxRoute,
        \<lparr>route_verb = HEAD, route_path = dataRouteRegex, route_handlers = [dataHeadRoute]\<rparr>,
        \<lparr>route_verb = GET, route_path = dataRouteRegex, route_handlers = [dataRoute]\<rparr>,
        on GET ''/(.*)'' subDataRoute,
        on GET ''/:other'' requestTypeNotFound]"

subsection \<open>\<^verbatim>\<open>start\<close>\<close>

text \<open>
  What \<^verbatim>\<open>BlockDB\<close> answers is an input: \<^verbatim>\<open>getLastBlock()\<close> resolves to a block row
  or to nothing, \<^verbatim>\<open>mineGenesisBlock()\<close> to the new id. Of a block row the code reads
  \<^verbatim>\<open>id\<close> and \<^verbatim>\<open>height\<close>; the other fields are those of the specification's Block.
\<close>

record Block =
  block_id :: string
  block_height :: int
  previous :: "string option"
  block_timestamp :: int
  transaction_ids :: "string list"

record StartOutcomes =
  apollo_start_result :: "rejection option"
  up_result :: "rejection option"
  getLastBlock_result :: "rejection + Block option"
  mineGenesisBlock_result :: "rejection + string"

definition set_network :: "int \<Rightarrow> string \<Rightarrow> int \<Rightarrow> ArLocal \<Rightarrow> ArLocal" where
  "set_network b c h this =
     this\<lparr>app_context := (app_context this)
            \<lparr>ctx_network := (ctx_network (app_context this))
               \<lparr>blocks := b, current := c, height := h\<rparr>\<rparr>\<rparr>"

text \<open>Lines 115 to 127: the chain head is restored from the last block or created.\<close>

definition init_chain ::
  "StartOutcomes \<Rightarrow> ArLocal \<times> World \<Rightarrow> rejection option \<times> ArLocal \<times> World" where
  "init_chain out tw =
     (let this = fst tw;
          w1 = called GetLastBlock (called NewBlockDB (snd tw))
      in case getLastBlock_result out of
           Inl e \<Rightarrow> (Some e, this, w1)
         | Inr (Some lastBlock) \<Rightarrow>
             (None,
              set_network (block_height lastBlock + 1) (block_id lastBlock)
                (block_height lastBlock) this,
              w1)
         | Inr None \<Rightarrow>
             (let w2 = called MineGenesisBlock w1
              in case mineGenesisBlock_result out of
                   Inl e \<Rightarrow> (Some e, this, w2)
                 | Inr blockId \<Rightarrow> (None, set_network 1 blockId 0 this, w2)))"

text \<open>Lines 129 to 215: routes, middleware, and the listening server.\<close>

definition serve :: "env \<Rightarrow> ArLocal \<times> World \<Rightarrow> ArLocal \<times> World" where
  "serve e tw =
     (let this = fst tw
      in (this\<lparr>router := router this @ register_routes e,
               app_middleware := app_middleware this @
                 [cors, crossOriginResourcePolicy, json, logger, bodyParser,
                  routerRoutes, routerAllowedMethods],
               server := Some (Server (port this))\<rparr>,
          called (Listen (port this)) (snd tw)))"

definition start ::
  "StartOutcomes \<Rightarrow> env \<Rightarrow> ArLocal \<times> World \<Rightarrow> rejection option \<times> ArLocal \<times> World" where
  "start out e tw =
     (case startDB (apollo_start_result out) (up_result out) tw of
        (Some err, tw1) \<Rightarrow> (Some err, tw1)
      | (None, tw1) \<Rightarrow>
          (case init_chain out tw1 of
             (Some err, tw2) \<Rightarrow> (Some err, tw2)
           | (None, tw2) \<Rightarrow> (None, serve e tw2)))"

subsection \<open>\<^verbatim>\<open>stop\<close>\<close>

text \<open>
  \<^verbatim>\<open>stop()\<close> starts two things and returns: \<^verbatim>\<open>server.close\<close>, whose callback removes
  the directory only when it is handed an error, and the chain
  \<^verbatim>\<open>down().then(apollo.stop().then(connection.destroy().then(rmSync)))\<close>, where each
  \<^verbatim>\<open>.catch(() => {})\<close> swallows a rejection and with it the rest of the chain. Calling
  \<^verbatim>\<open>stop\<close> on \<^verbatim>\<open>undefined\<close> (no \<^verbatim>\<open>start()\<close> before) throws inside the first callback
  and is swallowed in the same way. The model gives the state once every callback has
  run; both removals are the same call, so their order does not change the result.
\<close>

record StopOutcomes =
  close_error :: bool
  down_resolves :: bool
  apollo_stop_resolves :: bool
  destroy_resolves :: bool

definition stop :: "StopOutcomes \<Rightarrow> ArLocal \<times> World \<Rightarrow> ArLocal \<times> World" where
  "stop out tw =
     (let this = fst tw;
          w1 = (case server this of
                  None \<Rightarrow> snd tw
                | Some s \<Rightarrow>
                    (let wc = called ServerClose (snd tw)
                     in if close_error out then try_rmSync this wc else wc));
          w2 = called (Down (persist this)) w1
      in if \<not> down_resolves out then (this, w2)
         else (case apollo this of
                 None \<Rightarrow> (this, w2)
               | Some a \<Rightarrow>
                   (let w3 = called ApolloStop w2
                    in if \<not> apollo_stop_resolves out then (this, w3)
                       else (let w4 = called ConnectionDestroy w3
                             in if \<not> destroy_resolves out then (this, w4)
                                else (this, try_rmSync this w4)))))"

subsection \<open>A life of an instance\<close>

datatype op = Start StartOutcomes env | Stop StopOutcomes

fun run :: "op list \<Rightarrow> ArLocal \<times> World \<Rightarrow> ArLocal \<times> World" where
  "run [] tw = tw"
| "run (Start out e # ops) tw = run ops (snd (start out e tw))"
| "run (Stop out # ops) tw = run ops (stop out tw)"

text \<open>The calls made between two worlds, the later one extending the log of the earlier.\<close>

definition new_calls :: "World \<Rightarrow> World \<Rightarrow> call list" where
  "new_calls w w' = drop (length (calls w)) (calls w')"

text \<open>Likewise the routes registered between two states of an instance.\<close>

definition new_routes :: "ArLocal \<Rightarrow> ArLocal \<Rightarrow> Route list" where
  "new_routes this this' = drop (length (router this)) (router this')"

subsection \<open>The operations the switch governs\<close>

text \<open>
  The routes of the eight operations tagged as administrative (logs, reset, mine, mine
  with failures, delete transaction, create wallet, patch wallet balance, mint), and the
  handlers behind them.
\<close>

definition admin_tagged :: "Route list" where
  "admin_tagged =
     [on GET ''/logs'' logsRoute,
      on GET ''/reset'' resetRoute,
      on GET ''/mine/:qty?'' mineRoute,
      on GET ''/mineWithFails/:qty?'' mineWithFailsRoute,
      on DELETE ''/tx/:txid'' deleteTxRoute,
      on POST ''/wallet'' createWalletRoute,
      on PATCH ''/wallet/:address/balance'' updateBalanceRoute,
      on GET ''/mint/:address/:balance'' addBalanceRoute]"

definition admin_handlers :: "handler set" where
  "admin_handlers =
     {logsRoute, resetRoute, mineRoute, mineWithFailsRoute, deleteTxRoute,
      createWalletRoute, updateBalanceRoute, addBalanceRoute}"

definition handlers_of :: "Route list \<Rightarrow> handler set" where
  "handlers_of rs = set (concat (map route_handlers rs))"

text \<open>
  The public read operations: wallet balance and last transaction, network status, block
  by hash and by height, chunk by offset, and the transaction lookups.
\<close>

definition public_reads :: "Route list" where
  "public_reads =
     [on GET ''/wallet/:address/balance'' getBalanceRoute,
      on GET ''/wallet/:address/last_tx'' getLastWalletTxRoute,
      on GET ''/'' statusRoute,
      on GET ''/info'' statusRoute,
      on GET ''/block/hash/:indep_hash'' blocksRoute,
      on GET ''/block/height/:height'' blocksRouteViaHeight,
      on GET ''/chunk/:offset'' getChunkOffsetRoute,
      on GET ''/tx/pending'' txPendingRoute,
      on GET ''/tx/:txid/offset'' txOffsetRoute,
      on GET ''/tx/:txid/status'' txStatusRoute,
      on GET ''/tx/:txid/data'' txRawDataRoute,
      on GET ''/tx/:txid/data.:ext'' txDataRoute,
      on GET ''/tx/:txid/:field'' txFieldRoute,
      on GET ''/tx/:txid/:file'' txFileRoute,
      on GET ''/tx/:txid'' txRoute,
      on GET ''/raw/:txid'' txRawDataRoute]"

section \<open>The block chain manager\<close>

text \<open>
  The mining code (\<^verbatim>\<open>routes/mine\<close>, \<^verbatim>\<open>db/block\<close>) is not part of \<^verbatim>\<open>app.ts\<close>. What
  follows is written from the specification's sections 3, 4.4 and 4.5. Storage failures
  (section 7) are not modelled: every atomic unit commits. A block's id is a content
  hash, taken as a parameter over the block's other fields.
\<close>

datatype tx_status = pending | confirmed

record Transaction =
  tx_id :: string
  owner_address :: string
  target_address :: "string option"
  quantity :: int
  fee :: int
  data_size :: int
  data_root :: "string option"
  status :: tx_status
  tx_block_id :: "string option"

record Ledger =
  stored_blocks :: "Block list"
  pool :: "Transaction list"
  mined :: "Transaction list"
  balance :: "string \<Rightarrow> int"
  chain_height :: int
  currentBlockId :: string

type_synonym block_hash = "int \<Rightarrow> string option \<Rightarrow> int \<Rightarrow> string list \<Rightarrow> string"

definition credit :: "string \<Rightarrow> int \<Rightarrow> (string \<Rightarrow> int) \<Rightarrow> (string \<Rightarrow> int)" where
  "credit a n bal = bal(a := bal a + n)"

definition debit :: "string \<Rightarrow> int \<Rightarrow> (string \<Rightarrow> int) \<Rightarrow> (string \<Rightarrow> int)" where
  "debit a n bal = bal(a := bal a - n)"

text \<open>
  Modelled from the spec: steps (a) and (b) of the single-block mining step, with the
  overdraw rule of section 4.4. The pending transactions are taken in submission order;
  one that would overdraw its owner is skipped and stays pending; an accepted one debits
  its owner by quantity plus fee, credits its target (if present) by the quantity and the
  reward address by the fee. The result is the accepted transactions, the skipped ones
  and the balances.
\<close>

fun accept ::
  "string \<Rightarrow> (string \<Rightarrow> int) \<Rightarrow> Transaction list \<Rightarrow>
   Transaction list \<times> Transaction list \<times> (string \<Rightarrow> int)" where
  "accept reward bal [] = ([], [], bal)"
| "accept reward bal (t # ts) =
     (if bal (owner_address t) < quantity t + fee t
      then (case accept reward bal ts of (acc, skipped, bal') \<Rightarrow> (acc, t # skipped, bal'))
      else (let bal1 = debit (owner_address t) (quantity t + fee t) bal;
                bal2 = (case target_address t of
                          None \<Rightarrow> bal1
                        | Some a \<Rightarrow> credit a (quantity t) bal1);
                bal3 = credit reward (fee t) bal2
            in case accept reward bal3 ts of
                 (acc, skipped, bal') \<Rightarrow> (t # acc, skipped, bal')))"

text \<open>
  Modelled from the spec: the single-block mining step of section 4.5, steps (a) to (e).
  The new block references the accepted transactions, has \<open>previous = currentBlockId\<close>
  and \<open>height = height + 1\<close>; the accepted transactions become confirmed in it; then
  \<open>currentBlockId\<close> and \<open>height\<close> advance. With nothing pending an empty block is
  mined. The result is the block and the ledger.
\<close>

definition mine_step :: "block_hash \<Rightarrow> string \<Rightarrow> int \<Rightarrow> Ledger \<Rightarrow> Block \<times> Ledger" where
  "mine_step H reward now l =
     (case accept reward (balance l) (pool l) of
        (acc, skipped, bal') \<Rightarrow>
          (let ids = map tx_id acc;
               h = chain_height l + 1;
               prev = Some (currentBlockId l);
               b = \<lparr>block_id = H h prev now ids, block_height = h, previous = prev,
                    block_timestamp = now, transaction_ids = ids\<rparr>
           in (b,
               l\<lparr>stored_blocks := stored_blocks l @ [b],
                 pool := skipped,
                 mined := mined l @
                   map (\<lambda>t. t\<lparr>status := confirmed, tx_block_id := Some (block_id b)\<rparr>) acc,
                 balance := bal',
                 chain_height := h,
                 currentBlockId := block_id b\<rparr>)))"

text \<open>
  Modelled from the spec: \<^verbatim>\<open>mine(quantity)\<close> repeats the single-block step \<open>quantity\<close>
  times; the result is the blocks produced, in order, and the ledger.
\<close>

fun mine :: "block_hash \<Rightarrow> string \<Rightarrow> int \<Rightarrow> nat \<Rightarrow> Ledger \<Rightarrow> Block list \<times> Ledger" where
  "mine H reward now 0 l = ([], l)"
| "mine H reward now (Suc n) l =
     (case mine_step H reward now l of
        (b, l1) \<Rightarrow> (case mine H reward now n l1 of (bs, l2) \<Rightarrow> (b # bs, l2)))"

text \<open>
  Modelled from the spec: \<^verbatim>\<open>mineGenesisBlock()\<close> creates the block of height 0 with no
  transactions and no predecessor, stamped with the time of process start, and sets
  \<open>currentBlockId\<close>.
\<close>

definition mineGenesisBlock :: "block_hash \<Rightarrow> int \<Rightarrow> Ledger \<Rightarrow> Block \<times> Ledger" where
  "mineGenesisBlock H started l =
     (let b = \<lparr>block_id = H 0 None started [], block_height = 0, previous = None,
                block_timestamp = started, transaction_ids = []\<rparr>
      in (b, l\<lparr>stored_blocks := stored_blocks l @ [b], chain_height := 0,
               currentBlockId := block_id b\<rparr>))"

text \<open>
  A sequence of \<^verbatim>\<open>mine(1)\<close> calls, one per given time: for each call the ledger it
  started from, the blocks it produced and the ledger it left.
\<close>

fun mine_calls ::
  "block_hash \<Rightarrow> string \<Rightarrow> int list \<Rightarrow> Ledger \<Rightarrow> (Ledger \<times> Block list \<times> Ledger) list" where
  "mine_calls H reward [] l = []"
| "mine_calls H reward (now # nows) l =
     (case mine H reward now 1 l of
        (bs, l') \<Rightarrow> (l, bs, l') # mine_calls H reward nows l')"

text \<open>
  The id of the block produced before call \<open>i\<close> of such a sequence: the genesis block for
  the first call, the block of call \<open>i - 1\<close> otherwise.
\<close>

definition preceding_id :: "Block \<Rightarrow> (Ledger \<times> Block list \<times> Ledger) list \<Rightarrow> nat \<Rightarrow> string" where
  "preceding_id g rs i = (if i = 0 then block_id g else block_id (last (fst (snd (rs ! (i - 1))))))"

section \<open>Genesis creation and requests in the life of an instance\<close>










section \<open>Auxiliary notions for the statements\<close>

text \<open>
  \<^verbatim>\<open>stop()\<close> reaches a call of \<^verbatim>\<open>rmSync\<close> on one of two ways: the server exists and
  \<^verbatim>\<open>close\<close> reports an error, or \<^verbatim>\<open>down\<close>, \<^verbatim>\<open>apollo.stop\<close> (on an Apollo server that
  exists) and \<^verbatim>\<open>connection.destroy\<close> all resolve.
\<close>

definition removal_reached :: "StopOutcomes \<Rightarrow> ArLocal \<Rightarrow> bool" where
  "removal_reached out this =
     ((server this \<noteq> None \<and> close_error out)
      \<or> (down_resolves out \<and> apollo this \<noteq> None \<and> apollo_stop_resolves out
          \<and> destroy_resolves out))"

text \<open>Inputs for the examples: a world, collaborators that resolve, and environments.\<close>

definition empty_world :: World where
  "empty_world = \<lparr>fs = {}, calls = []\<rparr>"

definition resolving :: "Block option \<Rightarrow> StartOutcomes" where
  "resolving lastBlock =
     \<lparr>apollo_start_result = None, up_result = None, getLastBlock_result = Inr lastBlock,
      mineGenesisBlock_result = Inr ''genesis''\<rparr>"

definition admin_disabled :: env where
  "admin_disabled v = (if v = ''DISABLE_ADMIN_ROUTES'' then Some ''true'' else None)"

definition unset :: env where
  "unset v = None"

section \<open>Properties\<close>

subsection \<open>Basic facts\<close>

lemma new_calls_append: "calls w' = calls w @ cs \<Longrightarrow> new_calls w w' = cs"
  by (simp add: new_calls_def)

lemma fs_called [simp]: "fs (called c w) = fs w"
  by (simp add: called_def)

lemma calls_called [simp]: "calls (called c w) = calls w @ [c]"
  by (simp add: called_def)

lemma try_rmSync_calls:
  "calls (try_rmSync this w) = calls w @ (if persist this then [] else [RmSync (dbPath this)])"
  by (simp add: try_rmSync_def split: sum.splits)

lemma try_rmSync_fs:
  "fs (try_rmSync this w) =
     (if persist this \<or> dbPath this \<notin> fs w then fs w
      else Set.filter (\<lambda>q. \<not> is_under (dbPath this) q) (fs w))"
  by (simp add: try_rmSync_def rmSync_def split: sum.splits)

lemma startDB_this:
  "fst (snd (startDB a u tw)) =
     (fst tw)\<lparr>apollo := Some (ApolloServer (connection (fst tw))),
              app_middleware := app_middleware (fst tw) @
                 (if a = None then [apolloMiddleware ''/graphql''] else [])\<rparr>"
  by (simp add: startDB_def Let_def split: option.splits)

lemma startDB_calls:
  "\<exists>cs. calls (snd (snd (startDB a u tw))) =
          calls (snd tw) @ (if persist (fst tw) then [] else [RmSync (dbPath (fst tw))]) @ cs
        \<and> set cs \<subseteq> {MkdirSync (dbPath (fst tw)), GraphServer, ApolloStart, Up}"
  by (simp add: startDB_def Let_def try_rmSync_calls split: option.splits)

lemma init_chain_this:
  "fst (snd (init_chain out tw)) =
     (case getLastBlock_result out of
        Inl e \<Rightarrow> fst tw
      | Inr (Some b) \<Rightarrow> set_network (block_height b + 1) (block_id b) (block_height b) (fst tw)
      | Inr None \<Rightarrow> (case mineGenesisBlock_result out of
                       Inl e \<Rightarrow> fst tw
                     | Inr i \<Rightarrow> set_network 1 i 0 (fst tw)))"
  by (simp add: init_chain_def Let_def split: sum.splits option.splits)

lemma init_chain_result:
  "fst (init_chain out tw) =
     (case getLastBlock_result out of
        Inl e \<Rightarrow> Some e
      | Inr (Some b) \<Rightarrow> None
      | Inr None \<Rightarrow> (case mineGenesisBlock_result out of Inl e \<Rightarrow> Some e | Inr i \<Rightarrow> None))"
  by (simp add: init_chain_def Let_def split: sum.splits option.splits)

lemma init_chain_world:
  "snd (snd (init_chain out tw)) =
     (snd tw)\<lparr>calls := calls (snd tw) @ [NewBlockDB, GetLastBlock] @
        (if getLastBlock_result out = Inr None then [MineGenesisBlock] else [])\<rparr>"
  by (simp add: init_chain_def Let_def called_def split: sum.splits option.splits)

lemma start_cases:
  "start out e tw =
     (let r1 = startDB (apollo_start_result out) (up_result out) tw
      in if fst r1 \<noteq> None then r1
         else let r2 = init_chain out (snd r1)
              in if fst r2 \<noteq> None then r2 else (None, serve e (snd r2)))"
  by (auto simp add: start_def Let_def split: prod.splits option.splits)

lemma stop_this: "fst (stop out tw) = fst tw"
  by (simp add: stop_def Let_def split: option.splits)

subsection \<open>What \<^verbatim>\<open>start\<close> leaves in the instance\<close>

lemma set_network_fields [simp]:
  "router (set_network b c h this) = router this"
  "port (set_network b c h this) = port this"
  "dbPath (set_network b c h this) = dbPath this"
  "persist (set_network b c h this) = persist this"
  "server (set_network b c h this) = server this"
  "app_middleware (set_network b c h this) = app_middleware this"
  "ctx_timestamp (app_context (set_network b c h this)) = ctx_timestamp (app_context this)"
  "blocks (ctx_network (app_context (set_network b c h this))) = b"
  "current (ctx_network (app_context (set_network b c h this))) = c"
  "height (ctx_network (app_context (set_network b c h this))) = h"
  by (simp_all add: set_network_def)

lemma init_chain_keeps [simp]:
  "router (fst (snd (init_chain out tw))) = router (fst tw)"
  "port (fst (snd (init_chain out tw))) = port (fst tw)"
  "ctx_timestamp (app_context (fst (snd (init_chain out tw)))) = ctx_timestamp (app_context (fst tw))"
  by (simp_all add: init_chain_this split: sum.splits option.splits)

lemma startDB_keeps [simp]:
  "router (fst (snd (startDB a u tw))) = router (fst tw)"
  "port (fst (snd (startDB a u tw))) = port (fst tw)"
  "app_context (fst (snd (startDB a u tw))) = app_context (fst tw)"
  by (simp_all add: startDB_this)

lemma serve_this:
  "fst (serve e tw) =
     (fst tw)\<lparr>router := router (fst tw) @ register_routes e,
              app_middleware := app_middleware (fst tw) @
                [cors, crossOriginResourcePolicy, json, logger, bodyParser,
                 routerRoutes, routerAllowedMethods],
              server := Some (Server (port (fst tw)))\<rparr>"
  by (simp add: serve_def Let_def)

lemma serve_world: "snd (serve e tw) = called (Listen (port (fst tw))) (snd tw)"
  by (simp add: serve_def Let_def)

lemma start_resolved:
  assumes "fst (start out e tw) = None"
  shows "fst (startDB (apollo_start_result out) (up_result out) tw) = None"
    and "fst (init_chain out (snd (startDB (apollo_start_result out) (up_result out) tw))) = None"
    and "snd (start out e tw) =
           serve e (snd (init_chain out
             (snd (startDB (apollo_start_result out) (up_result out) tw))))"
  using assms by (auto simp add: start_cases Let_def split: if_splits)

lemma start_router:
  assumes "fst (start out e tw) = None"
  shows "router (fst (snd (start out e tw))) = router (fst tw) @ register_routes e"
  by (simp add: start_resolved(3) [OF assms] serve_this)

subsection \<open>When \<^verbatim>\<open>start\<close> resolves, and what it calls\<close>

lemma startDB_result:
  "fst (startDB a u tw) =
     (case a of
        Some err \<Rightarrow> Some err
      | None \<Rightarrow>
          if dbPath (fst tw) \<noteq> '':memory:''
             \<and> \<not> existsSync (join [dbPath (fst tw), ''db.sqlite''])
                   (fs (snd (snd (startDB a u tw))))
          then u else None)"
  by (simp add: startDB_def Let_def split: option.splits)

lemma start_resolves:
  assumes "apollo_start_result out = None"
    and "up_result out = None"
    and "getLastBlock_result out = Inr lastBlock"
    and "lastBlock = None \<Longrightarrow> mineGenesisBlock_result out = Inr blockId"
  shows "fst (start out e tw) = None"
  using assms
  by (cases lastBlock) (simp_all add: start_cases Let_def startDB_result init_chain_result)

lemma start_this_after_startDB:
  assumes "fst (startDB (apollo_start_result out) (up_result out) tw) = None"
  shows "start out e tw =
     (let r2 = init_chain out (snd (startDB (apollo_start_result out) (up_result out) tw))
      in if fst r2 \<noteq> None then r2 else (None, serve e (snd r2)))"
  using assms by (simp add: start_cases Let_def)

lemma start_calls:
  assumes "fst (startDB (apollo_start_result out) (up_result out) tw) = None"
  shows "\<exists>cs cs'. calls (snd (snd (start out e tw))) =
            calls (snd tw) @ cs @ [NewBlockDB, GetLastBlock]
              @ (if getLastBlock_result out = Inr None then [MineGenesisBlock] else []) @ cs'
          \<and> MineGenesisBlock \<notin> set cs \<and> MineGenesisBlock \<notin> set cs'"
proof -
  let ?r1 = "startDB (apollo_start_result out) (up_result out) tw"
  obtain cs0 where cs0: "calls (snd (snd ?r1)) =
      calls (snd tw) @ (if persist (fst tw) then [] else [RmSync (dbPath (fst tw))]) @ cs0"
    "set cs0 \<subseteq> {MkdirSync (dbPath (fst tw)), GraphServer, ApolloStart, Up}"
    using startDB_calls [of "apollo_start_result out" "up_result out" tw] by blast
  let ?cs = "(if persist (fst tw) then [] else [RmSync (dbPath (fst tw))]) @ cs0"
  have no: "MineGenesisBlock \<notin> set ?cs"
    using cs0(2) by auto
  let ?g = "if getLastBlock_result out = Inr None then [MineGenesisBlock] else []"
  have "calls (snd (snd (start out e tw))) =
      calls (snd tw) @ ?cs @ [NewBlockDB, GetLastBlock] @ ?g
        @ (if fst (init_chain out (snd ?r1)) \<noteq> None then []
           else [Listen (port (fst (snd (init_chain out (snd ?r1)))))])"
    by (simp add: start_this_after_startDB [OF assms] Let_def init_chain_world serve_world cs0(1))
  with no show ?thesis
    by (intro exI [of _ ?cs] exI [of _ "if fst (init_chain out (snd ?r1)) \<noteq> None then []
           else [Listen (port (fst (snd (init_chain out (snd ?r1)))))]"]) simp
qed

subsection \<open>The routes and the switch\<close>

lemma register_routes_enabled:
  "admin_routes_enabled e \<Longrightarrow> set admin_tagged \<subseteq> set (register_routes e)"
  by (simp add: register_routes_def guarded_def admin_tagged_def)

lemma register_routes_disabled:
  assumes "\<not> admin_routes_enabled e"
  shows "set (register_routes e) \<inter> set admin_tagged = {}"
    and "handlers_of (register_routes e) \<inter> admin_handlers = {}"
  using assms
  by (simp_all add: register_routes_def guarded_def admin_tagged_def on_def
      handlers_of_def admin_handlers_def)

lemma public_reads_registered: "set public_reads \<subseteq> set (register_routes e)"
  by (simp add: register_routes_def public_reads_def)

lemma unguarded_routes:
  "filter (\<lambda>r. r \<notin> set admin_tagged) (register_routes e) =
   filter (\<lambda>r. r \<notin> set admin_tagged) (register_routes (\<lambda>v. None))"
  by (simp add: register_routes_def guarded_def admin_tagged_def on_def
      admin_routes_enabled_def)

text \<open>
  C1. If \<^verbatim>\<open>DISABLE_ADMIN_ROUTES\<close> is the string \<^verbatim>\<open>true\<close> when \<^verbatim>\<open>start()\<close> runs, none
  of the admin-tagged operations is among the routes it registers (neither their routes
  nor their handlers under any other route); with any other value, or unset, every one of
  them is. The router holds what it held before followed by these routes, so on an
  instance as constructed they are the whole router.
\<close>

theorem admin_routes_follow_switch:
  assumes "fst (start out e tw) = None"
  shows "router (fst (snd (start out e tw))) =
           router (fst tw) @ new_routes (fst tw) (fst (snd (start out e tw)))
       \<and> (if e ''DISABLE_ADMIN_ROUTES'' = Some ''true''
          then set (new_routes (fst tw) (fst (snd (start out e tw)))) \<inter> set admin_tagged = {}
             \<and> handlers_of (new_routes (fst tw) (fst (snd (start out e tw)))) \<inter> admin_handlers = {}
          else set admin_tagged \<subseteq> set (new_routes (fst tw) (fst (snd (start out e tw)))))"
proof -
  have new: "new_routes (fst tw) (fst (snd (start out e tw))) = register_routes e"
    by (simp add: new_routes_def start_router [OF assms])
  show ?thesis
  proof (cases "e ''DISABLE_ADMIN_ROUTES'' = Some ''true''")
    case True
    then have "\<not> admin_routes_enabled e"
      by (simp add: admin_routes_enabled_def)
    from register_routes_disabled [OF this] True show ?thesis
      by (simp add: new start_router [OF assms])
  next
    case False
    then have "admin_routes_enabled e"
      by (simp add: admin_routes_enabled_def)
    from register_routes_enabled [OF this] False show ?thesis
      by (simp add: new start_router [OF assms])
  qed
qed

theorem admin_routes_follow_switch_witness:
  "router (fst (constructor ''/app'' 1700 None None None None None empty_world)) = []
   \<and> fst (start (resolving None) admin_disabled
        (constructor ''/app'' 1700 None None None None None empty_world)) = None
   \<and> set (router (fst (snd (start (resolving None) admin_disabled
        (constructor ''/app'' 1700 None None None None None empty_world))))) \<inter> set admin_tagged = {}
   \<and> handlers_of (router (fst (snd (start (resolving None) admin_disabled
        (constructor ''/app'' 1700 None None None None None empty_world))))) \<inter> admin_handlers = {}
   \<and> set admin_tagged \<subseteq> set (router (fst (snd (start (resolving None) unset
        (constructor ''/app'' 1700 None None None None None empty_world)))))"
proof -
  let ?c = "constructor ''/app'' 1700 None None None None None empty_world"
  have r: "router (fst ?c) = []"
    by (simp add: constructor_def Let_def)
  have s: "fst (start (resolving None) admin_disabled ?c) = None"
    by (rule start_resolves [where lastBlock = None and blockId = "''genesis''"])
      (simp_all add: resolving_def)
  have s': "fst (start (resolving None) unset ?c) = None"
    by (rule start_resolves [where lastBlock = None and blockId = "''genesis''"])
      (simp_all add: resolving_def)
  from admin_routes_follow_switch [OF s] admin_routes_follow_switch [OF s'] r s
  show ?thesis
    by (simp add: admin_disabled_def unset_def)
qed

text \<open>
  C6. Whatever \<^verbatim>\<open>DISABLE_ADMIN_ROUTES\<close> holds, the public read operations are
  registered; the switch decides on admin-tagged routes only: the other routes are the
  same, in the same order, under any two environments.
\<close>

theorem public_reads_always_registered:
  assumes "fst (start out e tw) = None"
    and "fst (start out' e' tw) = None"
  shows "set public_reads \<subseteq> set (router (fst (snd (start out e tw))))
       \<and> filter (\<lambda>r. r \<notin> set admin_tagged) (router (fst (snd (start out e tw)))) =
         filter (\<lambda>r. r \<notin> set admin_tagged) (router (fst (snd (start out' e' tw))))"
proof -
  have "set public_reads \<subseteq> set (router (fst (snd (start out e tw))))"
    using public_reads_registered [of e] by (auto simp add: start_router [OF assms(1)])
  moreover have "filter (\<lambda>r. r \<notin> set admin_tagged) (register_routes e) =
      filter (\<lambda>r. r \<notin> set admin_tagged) (register_routes e')"
    using unguarded_routes [of e] unguarded_routes [of e'] by simp
  ultimately show ?thesis
    by (simp add: start_router [OF assms(1)] start_router [OF assms(2)])
qed

theorem public_reads_always_registered_witness:
  "fst (start (resolving None) admin_disabled
        (constructor ''/app'' 1700 None None None None None empty_world)) = None
   \<and> fst (start (resolving None) unset
        (constructor ''/app'' 1700 None None None None None empty_world)) = None
   \<and> set public_reads \<subseteq> set (router (fst (snd (start (resolving None) admin_disabled
        (constructor ''/app'' 1700 None None None None None empty_world)))))
   \<and> filter (\<lambda>r. r \<notin> set admin_tagged) (router (fst (snd (start (resolving None) admin_disabled
        (constructor ''/app'' 1700 None None None None None empty_world))))) =
     filter (\<lambda>r. r \<notin> set admin_tagged) (router (fst (snd (start (resolving None) unset
        (constructor ''/app'' 1700 None None None None None empty_world)))))"
proof -
  let ?c = "constructor ''/app'' 1700 None None None None None empty_world"
  have s: "fst (start (resolving None) admin_disabled ?c) = None"
    by (rule start_resolves [where lastBlock = None and blockId = "''genesis''"])
      (simp_all add: resolving_def)
  have s': "fst (start (resolving None) unset ?c) = None"
    by (rule start_resolves [where lastBlock = None and blockId = "''genesis''"])
      (simp_all add: resolving_def)
  from public_reads_always_registered [OF s s'] s s' show ?thesis
    by simp
qed

subsection \<open>The chain head\<close>

text \<open>
  C2. When \<^verbatim>\<open>start()\<close> runs (the database having started), the genesis block is
  created if and only if storage reports no last block: with a last block
  \<^verbatim>\<open>mineGenesisBlock()\<close> is not called and blocks, current and height are restored
  from it; without one it is called exactly once, and with the id it returns the state
  becomes blocks 1, that id, height 0.
\<close>

theorem genesis_iff_no_last_block:
  assumes "fst (startDB (apollo_start_result out) (up_result out) tw) = None"
    and "getLastBlock_result out = Inr lastBlock"
  shows "count_list (new_calls (snd tw) (snd (snd (start out e tw)))) MineGenesisBlock =
           (if lastBlock = None then 1 else 0)
       \<and> (case lastBlock of
            Some b \<Rightarrow>
              fst (start out e tw) = None
              \<and> blocks (ctx_network (app_context (fst (snd (start out e tw))))) = block_height b + 1
              \<and> current (ctx_network (app_context (fst (snd (start out e tw))))) = block_id b
              \<and> height (ctx_network (app_context (fst (snd (start out e tw))))) = block_height b
          | None \<Rightarrow>
              (case mineGenesisBlock_result out of
                 Inr blockId \<Rightarrow>
                   fst (start out e tw) = None
                   \<and> blocks (ctx_network (app_context (fst (snd (start out e tw))))) = 1
                   \<and> current (ctx_network (app_context (fst (snd (start out e tw))))) = blockId
                   \<and> height (ctx_network (app_context (fst (snd (start out e tw))))) = 0
               | Inl err \<Rightarrow>
                   fst (start out e tw) = Some err
                   \<and> ctx_network (app_context (fst (snd (start out e tw)))) =
                     ctx_network (app_context (fst tw))))"
proof -
  obtain cs cs' where "calls (snd (snd (start out e tw))) =
      calls (snd tw) @ cs @ [NewBlockDB, GetLastBlock]
        @ (if getLastBlock_result out = Inr None then [MineGenesisBlock] else []) @ cs'"
    and "MineGenesisBlock \<notin> set cs" "MineGenesisBlock \<notin> set cs'"
    using start_calls [OF assms(1)] by blast
  then have count: "count_list (new_calls (snd tw) (snd (snd (start out e tw)))) MineGenesisBlock =
      (if lastBlock = None then 1 else 0)"
    using assms(2) by (simp add: new_calls_def)
  have state: "case lastBlock of
      Some b \<Rightarrow>
        fst (start out e tw) = None
        \<and> blocks (ctx_network (app_context (fst (snd (start out e tw))))) = block_height b + 1
        \<and> current (ctx_network (app_context (fst (snd (start out e tw))))) = block_id b
        \<and> height (ctx_network (app_context (fst (snd (start out e tw))))) = block_height b
    | None \<Rightarrow>
        (case mineGenesisBlock_result out of
           Inr blockId \<Rightarrow>
             fst (start out e tw) = None
             \<and> blocks (ctx_network (app_context (fst (snd (start out e tw))))) = 1
             \<and> current (ctx_network (app_context (fst (snd (start out e tw))))) = blockId
             \<and> height (ctx_network (app_context (fst (snd (start out e tw))))) = 0
         | Inl err \<Rightarrow>
             fst (start out e tw) = Some err
             \<and> ctx_network (app_context (fst (snd (start out e tw)))) =
               ctx_network (app_context (fst tw)))"
    using assms(2)
    by (cases lastBlock; cases "mineGenesisBlock_result out")
      (simp_all add: start_this_after_startDB [OF assms(1)] Let_def init_chain_result
        init_chain_this serve_this)
  from count state show ?thesis ..
qed

theorem genesis_iff_no_last_block_witness:
  "fst (startDB None None (constructor ''/app'' 1700 None None None None None empty_world)) = None
   \<and> count_list (new_calls (snd (constructor ''/app'' 1700 None None None None None empty_world))
        (snd (snd (start (resolving None) unset
        (constructor ''/app'' 1700 None None None None None empty_world))))) MineGenesisBlock = 1
   \<and> blocks (ctx_network (app_context (fst (snd (start (resolving None) unset
        (constructor ''/app'' 1700 None None None None None empty_world)))))) = 1
   \<and> current (ctx_network (app_context (fst (snd (start (resolving None) unset
        (constructor ''/app'' 1700 None None None None None empty_world)))))) = ''genesis''
   \<and> height (ctx_network (app_context (fst (snd (start (resolving None) unset
        (constructor ''/app'' 1700 None None None None None empty_world)))))) = 0
   \<and> count_list (new_calls (snd (constructor ''/app'' 1700 None None None None None empty_world))
        (snd (snd (start
        (resolving (Some \<lparr>block_id = ''b7'', block_height = 7, previous = Some ''b6'',
                          block_timestamp = 1600, transaction_ids = []\<rparr>)) unset
        (constructor ''/app'' 1700 None None None None None empty_world))))) MineGenesisBlock = 0
   \<and> blocks (ctx_network (app_context (fst (snd (start
        (resolving (Some \<lparr>block_id = ''b7'', block_height = 7, previous = Some ''b6'',
                          block_timestamp = 1600, transaction_ids = []\<rparr>)) unset
        (constructor ''/app'' 1700 None None None None None empty_world)))))) = 8
   \<and> current (ctx_network (app_context (fst (snd (start
        (resolving (Some \<lparr>block_id = ''b7'', block_height = 7, previous = Some ''b6'',
                          block_timestamp = 1600, transaction_ids = []\<rparr>)) unset
        (constructor ''/app'' 1700 None None None None None empty_world)))))) = ''b7''"
proof -
  let ?c = "constructor ''/app'' 1700 None None None None None empty_world"
  let ?b = "\<lparr>block_id = ''b7'', block_height = 7, previous = Some ''b6'',
             block_timestamp = 1600, transaction_ids = []\<rparr>"
  have db: "fst (startDB None None ?c) = None"
    by (simp add: startDB_result)
  have 1: "fst (startDB (apollo_start_result (resolving None)) (up_result (resolving None)) ?c) = None"
    "fst (startDB (apollo_start_result (resolving (Some ?b))) (up_result (resolving (Some ?b))) ?c) = None"
    using db by (simp_all add: resolving_def)
  have 2: "getLastBlock_result (resolving None) = Inr None"
    "getLastBlock_result (resolving (Some ?b)) = Inr (Some ?b)"
    "mineGenesisBlock_result (resolving None) = Inr ''genesis''"
    by (simp_all add: resolving_def)
  from genesis_iff_no_last_block [OF 1(1) 2(1), of unset]
    genesis_iff_no_last_block [OF 1(2) 2(2), of unset] db 2(3)
  show ?thesis
    by simp
qed

subsection \<open>The shared context over the life of an instance\<close>

lemma start_app_context:
  "app_context (fst (snd (start out e tw))) =
     (if fst (startDB (apollo_start_result out) (up_result out) tw) = None
      then app_context (fst (snd (init_chain out
             (snd (startDB (apollo_start_result out) (up_result out) tw)))))
      else app_context (fst tw))"
  by (simp add: start_cases Let_def serve_this)


lemma init_chain_blocks_height:
  assumes "blocks (ctx_network (app_context (fst tw))) = height (ctx_network (app_context (fst tw))) + 1"
  shows "blocks (ctx_network (app_context (fst (snd (init_chain out tw))))) =
         height (ctx_network (app_context (fst (snd (init_chain out tw))))) + 1"
  using assms by (simp add: init_chain_this split: sum.splits option.splits)

lemma start_blocks_height:
  assumes "blocks (ctx_network (app_context (fst tw))) = height (ctx_network (app_context (fst tw))) + 1"
  shows "blocks (ctx_network (app_context (fst (snd (start out e tw))))) =
         height (ctx_network (app_context (fst (snd (start out e tw))))) + 1"
  using assms by (simp add: start_app_context init_chain_blocks_height)

lemma run_blocks_height:
  assumes "blocks (ctx_network (app_context (fst tw))) = height (ctx_network (app_context (fst tw))) + 1"
  shows "blocks (ctx_network (app_context (fst (run ops tw)))) =
         height (ctx_network (app_context (fst (run ops tw)))) + 1"
  using assms
proof (induction ops arbitrary: tw)
  case Nil
  then show ?case by simp
next
  case (Cons x ops)
  show ?case
  proof (cases x)
    case (Start out e)
    with Cons.IH [OF start_blocks_height [OF Cons.prems]] show ?thesis by simp
  next
    case (Stop out)
    with Cons.IH [of "stop out tw"] Cons.prems show ?thesis by (simp add: stop_this)
  qed
qed

text \<open>
  C3. \<open>blocks = height + 1\<close> holds of the network state at construction (blocks 0,
  height -1) and in every state reached from there by \<^verbatim>\<open>start()\<close> and \<^verbatim>\<open>stop()\<close>,
  whichever branch \<^verbatim>\<open>start()\<close> takes and whether it resolves or not; so blocks is 0
  exactly when height is -1.
\<close>

theorem blocks_is_height_plus_one:
  "blocks (ctx_network (app_context (fst
      (constructor dirname now port_arg showLogs_arg dbPath_arg persist_arg fails_arg w)))) = 0
   \<and> height (ctx_network (app_context (fst
      (constructor dirname now port_arg showLogs_arg dbPath_arg persist_arg fails_arg w)))) = - 1
   \<and> blocks (ctx_network (app_context (fst (run ops
      (constructor dirname now port_arg showLogs_arg dbPath_arg persist_arg fails_arg w))))) =
     height (ctx_network (app_context (fst (run ops
      (constructor dirname now port_arg showLogs_arg dbPath_arg persist_arg fails_arg w))))) + 1
   \<and> (blocks (ctx_network (app_context (fst (run ops
        (constructor dirname now port_arg showLogs_arg dbPath_arg persist_arg fails_arg w))))) = 0
      \<longleftrightarrow> height (ctx_network (app_context (fst (run ops
        (constructor dirname now port_arg showLogs_arg dbPath_arg persist_arg fails_arg w))))) = - 1)"
proof -
  let ?c = "constructor dirname now port_arg showLogs_arg dbPath_arg persist_arg fails_arg w"
  have c: "blocks (ctx_network (app_context (fst ?c))) = 0"
    "height (ctx_network (app_context (fst ?c))) = - 1"
    by (simp_all add: constructor_def Let_def initial_network_def)
  then have "blocks (ctx_network (app_context (fst ?c))) =
      height (ctx_network (app_context (fst ?c))) + 1"
    by simp
  from run_blocks_height [OF this, of ops] c show ?thesis
    by auto
qed








text \<open>
  C7. The constructor leaves height -1, blocks 0, queue length 0 and the placeholder
  current block id; it makes three calls (the logger, the connection, the wallet
  database), none of them to the block database, and leaves the file system as it was.
\<close>

theorem constructor_initial_network:
  "height (ctx_network (app_context (fst
      (constructor dirname now port_arg showLogs_arg dbPath_arg persist_arg fails_arg w)))) = - 1
   \<and> blocks (ctx_network (app_context (fst
      (constructor dirname now port_arg showLogs_arg dbPath_arg persist_arg fails_arg w)))) = 0
   \<and> queue_length (ctx_network (app_context (fst
      (constructor dirname now port_arg showLogs_arg dbPath_arg persist_arg fails_arg w)))) = 0
   \<and> current (ctx_network (app_context (fst
      (constructor dirname now port_arg showLogs_arg dbPath_arg persist_arg fails_arg w)))) = ''block_id''
   \<and> fs (snd (constructor dirname now port_arg showLogs_arg dbPath_arg persist_arg fails_arg w)) = fs w
   \<and> length (new_calls w
       (snd (constructor dirname now port_arg showLogs_arg dbPath_arg persist_arg fails_arg w))) = 3
   \<and> NewBlockDB \<notin> set (new_calls w
       (snd (constructor dirname now port_arg showLogs_arg dbPath_arg persist_arg fails_arg w)))
   \<and> GetLastBlock \<notin> set (new_calls w
       (snd (constructor dirname now port_arg showLogs_arg dbPath_arg persist_arg fails_arg w)))
   \<and> MineGenesisBlock \<notin> set (new_calls w
       (snd (constructor dirname now port_arg showLogs_arg dbPath_arg persist_arg fails_arg w)))"
  by (simp add: constructor_def initial_network_def called_def new_calls_def Let_def)

text \<open>
  C4, as the code has it. The drop probability in the shared context is the constructor's
  \<open>fails\<close> argument divided by 100 (0 when omitted); the instance keeps the argument
  itself. The two agree only for 0.
\<close>

theorem context_fails_is_percentage:
  "ctx_fails (app_context (fst
      (constructor dirname now port_arg showLogs_arg dbPath_arg persist_arg fails_arg w)))
     = (case fails_arg of None \<Rightarrow> 0 | Some f \<Rightarrow> f / 100)
   \<and> fails (fst (constructor dirname now port_arg showLogs_arg dbPath_arg persist_arg fails_arg w))
     = (case fails_arg of None \<Rightarrow> 0 | Some f \<Rightarrow> f)
   \<and> (ctx_fails (app_context (fst
         (constructor dirname now port_arg showLogs_arg dbPath_arg persist_arg fails_arg w)))
        = fails (fst (constructor dirname now port_arg showLogs_arg dbPath_arg persist_arg fails_arg w))
      \<longleftrightarrow> fails_arg = None \<or> fails_arg = Some 0)"
  by (auto simp add: constructor_def Let_def split: option.splits)

text \<open>
  The claim as written fails: a failure rate of 1 given to the constructor reaches the
  context as 1/100.
\<close>

theorem context_fails_counterexample:
  "ctx_fails (app_context (fst
      (constructor ''/app'' 1700 None None None None (Some 1) \<lparr>fs = {}, calls = []\<rparr>))) = 1 / 100
   \<and> ctx_fails (app_context (fst
      (constructor ''/app'' 1700 None None None None (Some 1) \<lparr>fs = {}, calls = []\<rparr>))) \<noteq> 1"
  by (simp add: constructor_def Let_def)

text \<open>
  C9. The port listened on is the given port when that is not 0, and 1984 when it is 0 or
  omitted; the default database path ends in the decimal string of the port argument as
  given (1984 when omitted).
\<close>

theorem listening_port_and_default_dbPath:
  assumes "fst (start out e
      (constructor dirname now port_arg showLogs_arg dbPath_arg persist_arg fails_arg w)) = None"
    and "dbPath_arg = None \<or> dbPath_arg = Some []"
  shows "port (fst (constructor dirname now port_arg showLogs_arg dbPath_arg persist_arg fails_arg w))
           = (case port_arg of None \<Rightarrow> 1984 | Some p \<Rightarrow> if p = 0 then 1984 else p)
       \<and> server (fst (snd (start out e
           (constructor dirname now port_arg showLogs_arg dbPath_arg persist_arg fails_arg w))))
           = Some (Server (case port_arg of None \<Rightarrow> 1984 | Some p \<Rightarrow> if p = 0 then 1984 else p))
       \<and> last (calls (snd (snd (start out e
           (constructor dirname now port_arg showLogs_arg dbPath_arg persist_arg fails_arg w)))))
           = Listen (case port_arg of None \<Rightarrow> 1984 | Some p \<Rightarrow> if p = 0 then 1984 else p)
       \<and> dbPath (fst (constructor dirname now port_arg showLogs_arg dbPath_arg persist_arg fails_arg w))
           = join [dirname, ''.db'', toString (case port_arg of None \<Rightarrow> 1984 | Some p \<Rightarrow> p)]"
proof -
  let ?c = "constructor dirname now port_arg showLogs_arg dbPath_arg persist_arg fails_arg w"
  have p: "port (fst ?c) = (case port_arg of None \<Rightarrow> 1984 | Some p \<Rightarrow> if p = 0 then 1984 else p)"
    by (simp add: constructor_def Let_def split: option.splits)
  have d: "dbPath (fst ?c) =
      join [dirname, ''.db'', toString (case port_arg of None \<Rightarrow> 1984 | Some p \<Rightarrow> p)]"
    using assms(2) by (auto simp add: constructor_def Let_def split: option.splits)
  have "server (fst (snd (start out e ?c))) = Some (Server (port (fst ?c)))"
    "last (calls (snd (snd (start out e ?c)))) = Listen (port (fst ?c))"
    by (simp_all add: start_resolved(3) [OF assms(1)] serve_this serve_world)
  with p d show ?thesis by simp
qed

theorem listening_port_and_default_dbPath_witness:
  "fst (start (resolving None) unset
        (constructor ''/app'' 1700 (Some 0) None None None None empty_world)) = None
   \<and> port (fst (constructor ''/app'' 1700 (Some 0) None None None None empty_world)) = 1984
   \<and> server (fst (snd (start (resolving None) unset
        (constructor ''/app'' 1700 (Some 0) None None None None empty_world)))) = Some (Server 1984)
   \<and> last (calls (snd (snd (start (resolving None) unset
        (constructor ''/app'' 1700 (Some 0) None None None None empty_world))))) = Listen 1984
   \<and> dbPath (fst (constructor ''/app'' 1700 (Some 0) None None None None empty_world)) = ''/app/.db/0''"
proof -
  let ?c = "constructor ''/app'' 1700 (Some 0) None None None None empty_world"
  have s: "fst (start (resolving None) unset ?c) = None"
    by (rule start_resolves [where lastBlock = None and blockId = "''genesis''"])
      (simp_all add: resolving_def)
  from listening_port_and_default_dbPath [OF s] s show ?thesis
    by (simp add: toString_def digits.simps)
qed

subsection \<open>The database directory\<close>

lemma parents_not_under:
  assumes "q \<in> set (parents d)"
  shows "\<not> is_under d q"
proof -
  from assms obtain i where "i < length d" "q = take i d"
    by (auto simp add: parents_def)
  then have "length q < length d"
    by simp
  then show ?thesis
    by (auto simp add: is_under_def prefix_def)
qed

lemma startDB_fs:
  "fs (snd (snd (startDB a u tw))) =
     (if dbPath (fst tw) \<in> fs (try_rmSync (fst tw) (snd tw))
      then fs (try_rmSync (fst tw) (snd tw))
      else mkdirSync (dbPath (fst tw)) (fs (try_rmSync (fst tw) (snd tw))))"
  by (simp add: startDB_def Let_def existsSync_def split: option.splits)

lemma start_fs:
  "fs (snd (snd (start out e tw))) =
   fs (snd (snd (startDB (apollo_start_result out) (up_result out) tw)))"
  by (simp add: start_cases Let_def serve_world init_chain_world)

lemma start_calls_rm:
  "\<exists>cs. calls (snd (snd (start out e tw))) =
          calls (snd tw) @ (if persist (fst tw) then [] else [RmSync (dbPath (fst tw))]) @ cs
        \<and> (\<forall>p. RmSync p \<notin> set cs)"
proof -
  let ?r1 = "startDB (apollo_start_result out) (up_result out) tw"
  obtain cs0 where cs0: "calls (snd (snd ?r1)) =
      calls (snd tw) @ (if persist (fst tw) then [] else [RmSync (dbPath (fst tw))]) @ cs0"
    "set cs0 \<subseteq> {MkdirSync (dbPath (fst tw)), GraphServer, ApolloStart, Up}"
    using startDB_calls [of "apollo_start_result out" "up_result out" tw] by blast
  then have no: "\<forall>p. RmSync p \<notin> set cs0"
    by auto
  have "\<exists>cs1. calls (snd (snd (start out e tw))) = calls (snd (snd ?r1)) @ cs1
      \<and> (\<forall>p. RmSync p \<notin> set cs1)"
    by (simp add: start_cases Let_def serve_world init_chain_world)
  then obtain cs1 where "calls (snd (snd (start out e tw))) = calls (snd (snd ?r1)) @ cs1"
    "\<forall>p. RmSync p \<notin> set cs1"
    by blast
  with cs0(1) no show ?thesis
    by (intro exI [of _ "cs0 @ cs1"]) simp
qed

lemma startDB_calls_rm_mkdir:
  assumes "\<not> persist (fst tw)"
  shows "\<exists>cs. new_calls (snd tw) (snd (snd (startDB a u tw))) =
           RmSync (dbPath (fst tw)) # MkdirSync (dbPath (fst tw)) # cs"
  using assms
  by (simp add: startDB_def Let_def new_calls_def try_rmSync_calls try_rmSync_fs
      existsSync_def is_under_def split: option.splits)

lemma stop_calls:
  "\<exists>cs. calls (snd (stop out tw)) = calls (snd tw) @ cs
        \<and> (persist (fst tw) \<longrightarrow> (\<forall>p. RmSync p \<notin> set cs))"
  by (simp add: stop_def Let_def try_rmSync_calls split: option.splits)

lemma stop_fs:
  "fs (snd (stop out tw)) =
     (if \<not> persist (fst tw) \<and> dbPath (fst tw) \<in> fs (snd tw) \<and> removal_reached out (fst tw)
      then Set.filter (\<lambda>q. \<not> is_under (dbPath (fst tw)) q) (fs (snd tw))
      else fs (snd tw))"
  by (auto simp add: stop_def Let_def try_rmSync_fs removal_reached_def is_under_def
      split: option.splits)

text \<open>
  C10, as the code has it. With \<^verbatim>\<open>persist\<close>, neither \<^verbatim>\<open>start()\<close> nor \<^verbatim>\<open>stop()\<close> calls
  \<^verbatim>\<open>rmSync\<close>: \<^verbatim>\<open>start()\<close> removes no path (it may create the directory) and \<^verbatim>\<open>stop()\<close>
  leaves the file system as it is. Without \<^verbatim>\<open>persist\<close>, \<^verbatim>\<open>startDB()\<close> calls \<^verbatim>\<open>rmSync\<close>
  and then \<^verbatim>\<open>mkdirSync\<close> on the directory, which exists after these two calls,
  emptied if it existed before; \<^verbatim>\<open>stop()\<close> removes an existing directory with all
  below it when it reaches the removal, and otherwise leaves the file system as it is.
\<close>

theorem removal_follows_persist:
  "if persist (fst tw)
   then (\<forall>p. RmSync p \<notin> set (new_calls (snd tw) (snd (snd (start out e tw)))))
      \<and> fs (snd tw) \<subseteq> fs (snd (snd (start out e tw)))
      \<and> (\<forall>p. RmSync p \<notin> set (new_calls (snd tw) (snd (stop sout tw))))
      \<and> fs (snd (stop sout tw)) = fs (snd tw)
   else (\<exists>cs. new_calls (snd tw) (snd (snd (startDB a u tw))) =
              RmSync (dbPath (fst tw)) # MkdirSync (dbPath (fst tw)) # cs)
      \<and> dbPath (fst tw) \<in> fs (snd (snd (startDB a u tw)))
      \<and> (dbPath (fst tw) \<in> fs (snd tw) \<longrightarrow>
           (\<forall>q \<in> fs (snd (snd (startDB a u tw))). is_under (dbPath (fst tw)) q
                \<longrightarrow> q = dbPath (fst tw)))
      \<and> (dbPath (fst tw) \<in> fs (snd tw) \<and> removal_reached sout (fst tw) \<longrightarrow>
           (\<forall>q \<in> fs (snd (stop sout tw)). \<not> is_under (dbPath (fst tw)) q))
      \<and> (\<not> removal_reached sout (fst tw) \<longrightarrow> fs (snd (stop sout tw)) = fs (snd tw))"
proof (cases "persist (fst tw)")
  case True
  obtain cs where "calls (snd (snd (start out e tw))) = calls (snd tw) @ cs"
    "\<forall>p. RmSync p \<notin> set cs"
    using start_calls_rm [of out e tw] True by auto
  then have 1: "\<forall>p. RmSync p \<notin> set (new_calls (snd tw) (snd (snd (start out e tw))))"
    by (simp add: new_calls_def)
  have 2: "fs (snd tw) \<subseteq> fs (snd (snd (start out e tw)))"
    using True by (auto simp add: start_fs startDB_fs try_rmSync_fs mkdirSync_def)
  obtain cs' where "calls (snd (stop sout tw)) = calls (snd tw) @ cs'"
    "\<forall>p. RmSync p \<notin> set cs'"
    using stop_calls [of sout tw] True by auto
  then have 3: "\<forall>p. RmSync p \<notin> set (new_calls (snd tw) (snd (stop sout tw)))"
    by (simp add: new_calls_def)
  have 4: "fs (snd (stop sout tw)) = fs (snd tw)"
    using True by (simp add: stop_fs)
  from True 1 2 3 4 show ?thesis
    by simp
next
  case False
  let ?d = "dbPath (fst tw)"
  have 1: "\<exists>cs. new_calls (snd tw) (snd (snd (startDB a u tw))) = RmSync ?d # MkdirSync ?d # cs"
    by (rule startDB_calls_rm_mkdir [OF False])
  have gone: "?d \<notin> fs (try_rmSync (fst tw) (snd tw))"
    using False by (simp add: try_rmSync_fs is_under_def)
  then have after: "fs (snd (snd (startDB a u tw))) =
      mkdirSync ?d (fs (try_rmSync (fst tw) (snd tw)))"
    by (simp add: startDB_fs)
  then have 2: "?d \<in> fs (snd (snd (startDB a u tw)))"
    by (simp add: mkdirSync_def)
  have 3: "\<forall>q \<in> fs (snd (snd (startDB a u tw))). is_under ?d q \<longrightarrow> q = ?d"
    if "?d \<in> fs (snd tw)"
    using that False parents_not_under [of _ ?d]
    by (auto simp add: after mkdirSync_def try_rmSync_fs)
  have 4: "\<forall>q \<in> fs (snd (stop sout tw)). \<not> is_under ?d q"
    if "?d \<in> fs (snd tw) \<and> removal_reached sout (fst tw)"
    using that False by (simp add: stop_fs)
  have 5: "fs (snd (stop sout tw)) = fs (snd tw)" if "\<not> removal_reached sout (fst tw)"
    using that by (simp add: stop_fs)
  from False 1 2 3 4 5 show ?thesis
    by simp
qed

theorem removal_follows_persist_witness:
  "persist (fst (constructor ''/app'' 1700 None None (Some ''/data'') (Some True) None
      \<lparr>fs = {''/data'', ''/data/db.sqlite''}, calls = []\<rparr>))
   \<and> RmSync ''/data'' \<notin> set (new_calls
        (snd (constructor ''/app'' 1700 None None (Some ''/data'') (Some True) None
          \<lparr>fs = {''/data'', ''/data/db.sqlite''}, calls = []\<rparr>))
        (snd (snd (start (resolving None) unset
          (constructor ''/app'' 1700 None None (Some ''/data'') (Some True) None
            \<lparr>fs = {''/data'', ''/data/db.sqlite''}, calls = []\<rparr>)))))
   \<and> ''/data/db.sqlite'' \<in> fs (snd (snd (start (resolving None) unset
        (constructor ''/app'' 1700 None None (Some ''/data'') (Some True) None
          \<lparr>fs = {''/data'', ''/data/db.sqlite''}, calls = []\<rparr>))))
   \<and> \<not> persist (fst (constructor ''/app'' 1700 None None (Some ''/data'') None None
      \<lparr>fs = {''/data'', ''/data/db.sqlite''}, calls = []\<rparr>))
   \<and> ''/data'' \<in> fs (snd (snd (startDB None None
        (constructor ''/app'' 1700 None None (Some ''/data'') None None
          \<lparr>fs = {''/data'', ''/data/db.sqlite''}, calls = []\<rparr>))))
   \<and> ''/data/db.sqlite'' \<notin> fs (snd (snd (startDB None None
        (constructor ''/app'' 1700 None None (Some ''/data'') None None
          \<lparr>fs = {''/data'', ''/data/db.sqlite''}, calls = []\<rparr>))))
   \<and> removal_reached
        \<lparr>close_error = False, down_resolves = True, apollo_stop_resolves = True,
         destroy_resolves = True\<rparr>
        (fst (snd (startDB None None
          (constructor ''/app'' 1700 None None (Some ''/data'') None None
            \<lparr>fs = {''/data'', ''/data/db.sqlite''}, calls = []\<rparr>))))
   \<and> ''/data'' \<notin> fs (snd (stop
        \<lparr>close_error = False, down_resolves = True, apollo_stop_resolves = True,
         destroy_resolves = True\<rparr>
        (snd (startDB None None
          (constructor ''/app'' 1700 None None (Some ''/data'') None None
            \<lparr>fs = {''/data'', ''/data/db.sqlite''}, calls = []\<rparr>)))))"
proof -
  let ?w = "\<lparr>fs = {''/data'', ''/data/db.sqlite''}, calls = []\<rparr>"
  let ?p = "constructor ''/app'' 1700 None None (Some ''/data'') (Some True) None ?w"
  let ?n = "constructor ''/app'' 1700 None None (Some ''/data'') None None ?w"
  let ?ok = "\<lparr>close_error = False, down_resolves = True, apollo_stop_resolves = True,
              destroy_resolves = True\<rparr>"
  let ?s = "snd (startDB None None ?n)"
  have p: "persist (fst ?p)" "fs (snd ?p) = {''/data'', ''/data/db.sqlite''}"
    by (simp_all add: constructor_def Let_def called_def)
  have n: "\<not> persist (fst ?n)" "dbPath (fst ?n) = ''/data''"
    "fs (snd ?n) = {''/data'', ''/data/db.sqlite''}"
    by (simp_all add: constructor_def Let_def called_def)
  have s: "\<not> persist (fst ?s)" "dbPath (fst ?s) = ''/data''"
    "removal_reached ?ok (fst ?s)"
    using n(1,2) by (simp_all add: startDB_this removal_reached_def)
  have u: "is_under ''/data'' ''/data/db.sqlite''" "is_under ''/data'' ''/data''"
    by (simp_all add: is_under_def)
  note a = removal_follows_persist [of ?p "resolving None" unset ?ok None None]
  note b = removal_follows_persist [of ?n "resolving None" unset ?ok None None]
  note c = removal_follows_persist [of ?s "resolving None" unset ?ok None None]
  have 1: "RmSync ''/data'' \<notin> set (new_calls (snd ?p) (snd (snd (start (resolving None) unset ?p))))"
    "''/data/db.sqlite'' \<in> fs (snd (snd (start (resolving None) unset ?p)))"
    using a p(1,2) by auto
  have 3: "''/data'' \<in> fs (snd ?s)" "''/data/db.sqlite'' \<notin> fs (snd ?s)"
    using b n u by auto
  have 4: "''/data'' \<notin> fs (snd (stop ?ok ?s))"
    using c s 3(1) u(2) by auto
  from p(1) 1 n(1) 3 s(3) 4 show ?thesis
    by simp
qed

text \<open>
  The claim as written fails in two places. With \<^verbatim>\<open>persist\<close> and no directory yet,
  \<^verbatim>\<open>start()\<close> creates it, so the on-disk state changes. Without \<^verbatim>\<open>persist\<close>, when
  \<^verbatim>\<open>down\<close> rejects, \<^verbatim>\<open>stop()\<close> leaves the directory where it is.
\<close>

theorem removal_follows_persist_counterexample:
  "persist (fst (constructor ''/app'' 1700 None None (Some ''/data'') (Some True) None empty_world))
   \<and> fs (snd (constructor ''/app'' 1700 None None (Some ''/data'') (Some True) None empty_world)) = {}
   \<and> fs (snd (snd (start (resolving None) unset
        (constructor ''/app'' 1700 None None (Some ''/data'') (Some True) None empty_world))))
       = {''/data''}
   \<and> \<not> persist (fst (snd (start (resolving None) unset
        (constructor ''/app'' 1700 None None (Some ''/data'') None None empty_world))))
   \<and> fs (snd (snd (start (resolving None) unset
        (constructor ''/app'' 1700 None None (Some ''/data'') None None empty_world))))
       = {''/data''}
   \<and> fs (snd (stop
        \<lparr>close_error = False, down_resolves = False, apollo_stop_resolves = True,
         destroy_resolves = True\<rparr>
        (snd (start (resolving None) unset
          (constructor ''/app'' 1700 None None (Some ''/data'') None None empty_world)))))
       = {''/data''}"
proof -
  have parents: "parents ''/data'' = []"
    by (simp add: parents_def upt_rec)
  let ?p = "constructor ''/app'' 1700 None None (Some ''/data'') (Some True) None empty_world"
  let ?n = "constructor ''/app'' 1700 None None (Some ''/data'') None None empty_world"
  let ?s = "snd (start (resolving None) unset ?n)"
  have p: "persist (fst ?p)" "dbPath (fst ?p) = ''/data''" "fs (snd ?p) = {}"
    by (simp_all add: constructor_def Let_def called_def empty_world_def)
  have n: "\<not> persist (fst ?n)" "dbPath (fst ?n) = ''/data''" "fs (snd ?n) = {}"
    by (simp_all add: constructor_def Let_def called_def empty_world_def)
  have 1: "fs (snd (snd (start (resolving None) unset ?p))) = {''/data''}"
    by (simp add: start_fs startDB_fs try_rmSync_fs p mkdirSync_def parents)
  have 2: "fs (snd ?s) = {''/data''}"
    by (simp add: start_fs startDB_fs try_rmSync_fs n mkdirSync_def parents)
  have 3: "\<not> persist (fst ?s)"
    using n(1)
    by (simp add: start_cases Let_def serve_this init_chain_this startDB_this startDB_result
        init_chain_result resolving_def)
  have 4: "fs (snd (stop \<lparr>close_error = False, down_resolves = False, apollo_stop_resolves = True,
      destroy_resolves = True\<rparr> ?s)) = {''/data''}"
    by (simp add: stop_fs removal_reached_def 2)
  from p(1,3) 1 2 3 4 show ?thesis
    by simp
qed

subsection \<open>Mining\<close>

lemma mine_step_props:
  assumes "mine_step H reward now l = (b, l')"
  shows "chain_height l' = chain_height l + 1"
    and "previous b = Some (currentBlockId l)"
    and "block_height b = chain_height l + 1"
    and "currentBlockId l' = block_id b"
  using assms by (auto simp add: mine_step_def Let_def split: prod.splits)

lemma mine_once:
  "mine H reward now 1 l = ([fst (mine_step H reward now l)], snd (mine_step H reward now l))"
  by (simp split: prod.splits)

lemma length_mine_calls: "length (mine_calls H reward nows l) = length nows"
  by (induction nows arbitrary: l) (auto split: prod.splits)

lemma mine_calls_nth:
  assumes "i < length nows"
    and "mine_calls H reward nows l ! i = (before, bs, after)"
  shows "chain_height before = chain_height l + int i
       \<and> chain_height after = chain_height before + 1
       \<and> currentBlockId before =
           (if i = 0 then currentBlockId l
            else block_id (last (fst (snd (mine_calls H reward nows l ! (i - 1))))))
       \<and> (\<exists>b. bs = [b] \<and> previous b = Some (currentBlockId before)
              \<and> block_height b = chain_height after \<and> currentBlockId after = block_id b)"
  using assms
proof (induction nows arbitrary: l i)
  case Nil
  then show ?case by simp
next
  case (Cons now nows)
  obtain b l1 where step: "mine_step H reward now l = (b, l1)"
    by (cases "mine_step H reward now l")
  have unfold: "mine_calls H reward (now # nows) l = (l, [b], l1) # mine_calls H reward nows l1"
    using step by (simp add: mine_once)
  show ?case
  proof (cases i)
    case 0
    with Cons.prems have "before = l" "bs = [b]" "after = l1"
      by (simp_all add: unfold del: mine_calls.simps)
    with 0 mine_step_props [OF step] show ?thesis
      by simp
  next
    case (Suc j)
    with Cons.prems
    have j: "j < length nows" "mine_calls H reward nows l1 ! j = (before, bs, after)"
      by (simp_all add: unfold del: mine_calls.simps)
    note ih = Cons.IH [OF j]
    have head: "currentBlockId l1 = block_id (last (fst (snd ((l, [b], l1)))))"
      using mine_step_props(4) [OF step] by simp
    show ?thesis
    proof (cases j)
      case 0
      with ih \<open>i = Suc j\<close> head mine_step_props(1) [OF step] show ?thesis
        by (auto simp add: unfold simp del: mine_calls.simps)
    next
      case (Suc k)
      with ih \<open>i = Suc j\<close> mine_step_props(1) [OF step] show ?thesis
        by (auto simp add: unfold simp del: mine_calls.simps)
    qed
  qed
qed

text \<open>
  C5. For every sequence of \<^verbatim>\<open>mine(1)\<close> calls after genesis, each call raises the
  chain height by exactly one, and the block it produces has as \<open>previous\<close> the id of
  the block produced by the call before it, the genesis block for the first call.
\<close>

theorem mine_calls_height_and_previous:
  assumes "mineGenesisBlock H started l0 = (g, l1)"
    and "i < length nows"
    and "mine_calls H reward nows l1 ! i = (before, bs, after)"
  shows "chain_height after = chain_height before + 1
       \<and> chain_height after = int i + 1
       \<and> (\<exists>b. bs = [b] \<and> block_height b = chain_height after
              \<and> previous b = Some (preceding_id g (mine_calls H reward nows l1) i))"
proof -
  have g: "chain_height l1 = 0" "currentBlockId l1 = block_id g"
    using assms(1) by (auto simp add: mineGenesisBlock_def Let_def)
  from mine_calls_nth [OF assms(2,3)] g show ?thesis
    by (auto simp add: preceding_id_def)
qed

theorem mine_calls_height_and_previous_witness:
  "(1::nat) < length [2000, 3000 :: int]
   \<and> chain_height (snd (snd (mine_calls (\<lambda>h p t ids. ''b'' @ toString h) ''miner'' [2000, 3000]
        (snd (mineGenesisBlock (\<lambda>h p t ids. ''b'' @ toString h) 1000
           \<lparr>stored_blocks = [],
            pool = [\<lparr>tx_id = ''t1'', owner_address = ''A'', target_address = Some ''B'',
                     quantity = 10, fee = 1, data_size = 0, data_root = None,
                     status = pending, tx_block_id = None\<rparr>],
            mined = [], balance = (\<lambda>a. if a = ''A'' then 100 else 0),
            chain_height = - 1, currentBlockId = []\<rparr>)) ! 1))) = 2
   \<and> map transaction_ids (fst (snd (mine_calls (\<lambda>h p t ids. ''b'' @ toString h) ''miner''
        [2000, 3000]
        (snd (mineGenesisBlock (\<lambda>h p t ids. ''b'' @ toString h) 1000
           \<lparr>stored_blocks = [],
            pool = [\<lparr>tx_id = ''t1'', owner_address = ''A'', target_address = Some ''B'',
                     quantity = 10, fee = 1, data_size = 0, data_root = None,
                     status = pending, tx_block_id = None\<rparr>],
            mined = [], balance = (\<lambda>a. if a = ''A'' then 100 else 0),
            chain_height = - 1, currentBlockId = []\<rparr>)) ! 0))) = [[''t1'']]
   \<and> map previous (fst (snd (mine_calls (\<lambda>h p t ids. ''b'' @ toString h) ''miner'' [2000, 3000]
        (snd (mineGenesisBlock (\<lambda>h p t ids. ''b'' @ toString h) 1000
           \<lparr>stored_blocks = [],
            pool = [\<lparr>tx_id = ''t1'', owner_address = ''A'', target_address = Some ''B'',
                     quantity = 10, fee = 1, data_size = 0, data_root = None,
                     status = pending, tx_block_id = None\<rparr>],
            mined = [], balance = (\<lambda>a. if a = ''A'' then 100 else 0),
            chain_height = - 1, currentBlockId = []\<rparr>)) ! 1))) = [Some ''b1'']"
proof -
  let ?H = "\<lambda>(h::int) (p::string option) (t::int) (ids::string list). ''b'' @ toString h"
  let ?l0 = "\<lparr>stored_blocks = [],
              pool = [\<lparr>tx_id = ''t1'', owner_address = ''A'', target_address = Some ''B'',
                       quantity = 10, fee = 1, data_size = 0, data_root = None,
                       status = pending, tx_block_id = None\<rparr>],
              mined = [], balance = (\<lambda>a. if a = ''A'' then 100 else 0),
              chain_height = - 1, currentBlockId = []\<rparr>"
  let ?gen = "mineGenesisBlock ?H 1000 ?l0"
  let ?rs = "mine_calls ?H ''miner'' [2000, 3000] (snd ?gen)"
  have g: "?gen = (fst ?gen, snd ?gen)"
    by simp
  have i: "(1::nat) < length [2000, 3000 :: int]"
    by simp
  have r: "?rs ! 1 = (fst (?rs ! 1), fst (snd (?rs ! 1)), snd (snd (?rs ! 1)))"
    by simp
  have p: "preceding_id (fst ?gen) ?rs 1 = ''b1''"
    by (simp add: preceding_id_def mine_step_def mineGenesisBlock_def Let_def toString_def
        digits.simps debit_def credit_def)
  have t: "map transaction_ids (fst (snd (?rs ! 0))) = [[''t1'']]"
    by (simp add: mine_step_def mineGenesisBlock_def Let_def debit_def credit_def)
  from mine_calls_height_and_previous [OF g i r] p i t show ?thesis
    by auto
qed

end
